theory Spec2Isabelle
  imports Complex_Main "HOL-Library.Word" "HOL-Library.Sublist"
begin

section \<open>Data model\<close>

text \<open>
  The scrape loop of \<^verbatim>\<open>main.go\<close> reads a decoded observation and copies its
  measurements into Prometheus gauges. The type of the response is declared in another
  file of the package; what is modelled of it is what the loop uses. A measurement is a
  pointer to a structure whose \<^verbatim>\<open>Value\<close> is itself a pointer to a
  \<^verbatim>\<open>float64\<close>, and either pointer may be \<^verbatim>\<open>nil\<close>. A pointer is an
  \<open>option\<close>; a \<^verbatim>\<open>float64\<close> is a \<open>real\<close> (the loop only copies these
  numbers).
\<close>

record QuantitativeValue =
  Value :: "real option"

text \<open>
  \<^verbatim>\<open>response.Properties\<close>. The timestamp is a \<^verbatim>\<open>time.Time\<close>: an
  instant, counted here in nanoseconds from the Unix epoch.
\<close>

record ObservationProperties =
  Timestamp :: int
  RelativeHumidity :: "QuantitativeValue option"
  Temperature :: "QuantitativeValue option"
  Dewpoint :: "QuantitativeValue option"
  WindDirection :: "QuantitativeValue option"
  WindSpeed :: "QuantitativeValue option"
  BarometricPressure :: "QuantitativeValue option"
  SeaLevelPressure :: "QuantitativeValue option"
  Visibility :: "QuantitativeValue option"

record ObservationResponse =
  Properties :: ObservationProperties

text \<open>
  The package-level gauges. A gauge holds one number; the gauge vector
  \<^verbatim>\<open>winddirection\<close> holds one child gauge for every value of its label
  \<^verbatim>\<open>Direction\<close> that was ever asked for.
\<close>

record MetricSet =
  humidity :: real
  temperature :: real
  dewpoint :: real
  winddirection :: "string \<rightharpoonup> real"
  windspeed :: real
  barometricpressure :: real
  sealevelpressure :: real
  visibility :: real
  timeSinceUpdate :: real

text \<open>The flags read by the loop.\<close>

record Config =
  station :: string
  address :: string
  verbose :: bool
  timeout :: int
  backofftime :: int
  failfast :: bool

section \<open>Durations\<close>

text \<open>
  A \<^verbatim>\<open>time.Duration\<close> is a signed 64-bit count of nanoseconds.
  \<^verbatim>\<open>time.Since(t)\<close> is \<^verbatim>\<open>time.Now().Sub(t)\<close> (a timestamp decoded from
  the response carries no monotonic clock reading, so the wall clock \<open>now\<close> is used),
  and \<^verbatim>\<open>Sub\<close> returns the largest (smallest) duration when the difference is
  above (below) what a duration holds. \<^verbatim>\<open>Seconds\<close> reads a duration as a
  number of seconds; the quotient is taken in the reals.
\<close>

definition maxDuration :: int where
  "maxDuration = 2 ^ 63 - 1"

definition minDuration :: int where
  "minDuration = - (2 ^ 63)"

definition Since :: "int \<Rightarrow> int \<Rightarrow> int" where
  "Since now t =
     (let d = now - t
      in if maxDuration < d then maxDuration
         else if d < minDuration then minDuration
         else d)"

definition Seconds :: "int \<Rightarrow> real" where
  "Seconds d = real_of_int d / 1000000000"

text \<open>
  \<^verbatim>\<open>time.Duration(backofftime) * time.Second\<close>: a multiplication of 64-bit
  integers, which wraps.
\<close>

definition backoffseconds :: "Config \<Rightarrow> int" where
  "backoffseconds cfg = sint ((word_of_int (backofftime cfg) :: 64 word) * 1000000000)"

section \<open>The cardinal direction\<close>

text \<open>
  Modelled from the spec: the function \<^verbatim>\<open>CardinalDirection\<close>, which
  \<^verbatim>\<open>main.go\<close> calls and which is declared in another file of the package. The
  specification gives it as: a degree value \<open>d\<close> maps to bucket
  \<open>round (d / 45) mod 8\<close>, bucket 0 = N, 1 = NE, 2 = E, 3 = SE, 4 = S, 5 = SW, 6 = W,
  7 = NW. Here \<open>round\<close> is the nearest integer (a half goes up) and \<open>mod\<close> is the
  remainder in \<open>{0..7}\<close>.
\<close>

definition directions :: "string list" where
  "directions = [''N'', ''NE'', ''E'', ''SE'', ''S'', ''SW'', ''W'', ''NW'']"

definition bucket :: "real \<Rightarrow> nat" where
  "bucket d = nat (round (d / 45) mod 8)"

definition CardinalDirection :: "real \<Rightarrow> string" where
  "CardinalDirection d = directions ! bucket d"

section \<open>The Publishing phase\<close>

text \<open>
  The test \<^verbatim>\<open>p != nil && p.Value != nil\<close> followed by the read \<^verbatim>\<open>*p.Value\<close>:
  the number when both pointers are set.
\<close>

definition valueOf :: "QuantitativeValue option \<Rightarrow> real option" where
  "valueOf p = (case p of None \<Rightarrow> None | Some q \<Rightarrow> Value q)"

text \<open>
  One of the eight \<^verbatim>\<open>if ... else\<close> statements of lines 125 to 166, on the pair of
  the gauges and of the local \<^verbatim>\<open>missingProperties\<close>: when the measurement is
  there its gauge is set, otherwise its name is appended to the list.
\<close>

definition observe ::
  "QuantitativeValue option \<Rightarrow> (real \<Rightarrow> MetricSet \<Rightarrow> MetricSet) \<Rightarrow> string \<Rightarrow>
     MetricSet \<times> string list \<Rightarrow> MetricSet \<times> string list" where
  "observe p set_gauge name s =
     (case valueOf p of
        Some v \<Rightarrow> (set_gauge v (fst s), snd s)
      | None \<Rightarrow> (fst s, snd s @ [name]))"

text \<open>
  Lines 122 to 166 of \<^verbatim>\<open>main.go\<close>: the gauge of the age of the observation, then
  the eight measurements in the order of the source. The argument \<open>now\<close> is the wall
  clock that \<^verbatim>\<open>time.Since\<close> reads. The wind direction is stored in the child of
  the gauge vector whose label is the cardinal direction of the measurement.
\<close>

definition Publishing ::
  "int \<Rightarrow> ObservationProperties \<Rightarrow> MetricSet \<Rightarrow> MetricSet \<times> string list" where
  "Publishing now p m0 =
     (let s0 = (m0\<lparr>timeSinceUpdate := Seconds (Since now (Timestamp p))\<rparr>, []);
          s1 = observe (RelativeHumidity p) (\<lambda>v m. m\<lparr>humidity := v\<rparr>)
                 ''RelativeHumidity'' s0;
          s2 = observe (Temperature p) (\<lambda>v m. m\<lparr>temperature := v\<rparr>)
                 ''Temperature'' s1;
          s3 = observe (Dewpoint p) (\<lambda>v m. m\<lparr>dewpoint := v\<rparr>)
                 ''Dewpoint'' s2;
          s4 = observe (WindDirection p)
                 (\<lambda>v m. m\<lparr>winddirection := (winddirection m)(CardinalDirection v \<mapsto> v)\<rparr>)
                 ''WindDirection'' s3;
          s5 = observe (WindSpeed p) (\<lambda>v m. m\<lparr>windspeed := v\<rparr>)
                 ''WindSpeed'' s4;
          s6 = observe (BarometricPressure p) (\<lambda>v m. m\<lparr>barometricpressure := v\<rparr>)
                 ''BarometricPressure'' s5;
          s7 = observe (SeaLevelPressure p) (\<lambda>v m. m\<lparr>sealevelpressure := v\<rparr>)
                 ''SeaLevelPressure'' s6;
          s8 = observe (Visibility p) (\<lambda>v m. m\<lparr>visibility := v\<rparr>)
                 ''Visibility'' s7
      in s8)"

section \<open>The scrape loop\<close>

text \<open>The lines the loop writes to the log, one constructor for each format string.\<close>

datatype LogLine =
  Fatal_error string
  | Problem_retrieving string string string
  | Waiting int int
  | Raw_json string
  | Missing_properties "string list"

text \<open>
  What one iteration reads from outside: the result of
  \<^verbatim>\<open>RetrieveCurrentObservation\<close> (the error, or the response with its raw JSON),
  the wall clock read by \<^verbatim>\<open>time.Since\<close> and the wall clock read for the
  \<^verbatim>\<open>Waiting\<close> line.
\<close>

record Environment =
  retrieved :: "string + (ObservationResponse \<times> string)"
  clock :: int
  logclock :: int

text \<open>
  What the loop changes: the gauges, the log, the durations it has slept, the value of
  the local \<^verbatim>\<open>missingProperties\<close> at the end of the latest Publishing phase, and
  the exit status once \<^verbatim>\<open>log.Fatalf\<close> has ended the process.
\<close>

record LoopState =
  metrics :: MetricSet
  logged :: "LogLine list"
  slept :: "int list"
  missingProperties :: "string list"
  exited :: "int option"

definition logPrintf :: "LogLine \<Rightarrow> LoopState \<Rightarrow> LoopState" where
  "logPrintf l st = st\<lparr>logged := logged st @ [l]\<rparr>"

definition Sleep :: "int \<Rightarrow> LoopState \<Rightarrow> LoopState" where
  "Sleep d st = st\<lparr>slept := slept st @ [d]\<rparr>"

text \<open>The body of the \<^verbatim>\<open>for\<close> loop, lines 105 to 175.\<close>

definition scrape :: "Config \<Rightarrow> Environment \<Rightarrow> LoopState \<Rightarrow> LoopState" where
  "scrape cfg env st =
     (case retrieved env of
        Inl err \<Rightarrow>
          if failfast cfg
          then (logPrintf (Fatal_error err) st)\<lparr>exited := Some 1\<rparr>
          else Sleep (backoffseconds cfg)
                 (logPrintf (Waiting (backofftime cfg) (logclock env + backoffseconds cfg))
                    (logPrintf (Problem_retrieving (address cfg) (station cfg) err) st))
      | Inr (response, rawJSON) \<Rightarrow>
          (let st1 = (if verbose cfg then logPrintf (Raw_json rawJSON) st else st);
               r = Publishing (clock env) (Properties response) (metrics st1);
               st2 = st1\<lparr>metrics := fst r, missingProperties := snd r\<rparr>;
               st3 = (if length (snd r) \<noteq> 0
                      then logPrintf (Missing_properties (snd r)) st2 else st2);
               st4 = (if verbose cfg
                      then logPrintf
                             (Waiting (backofftime cfg) (logclock env + backoffseconds cfg)) st3
                      else st3)
           in Sleep (backoffseconds cfg) st4))"

text \<open>
  The loop never ends by itself. It is run here on the list of what its successive
  iterations read from outside, and stops early only when the process has exited.
\<close>

fun scrape_loop :: "Config \<Rightarrow> Environment list \<Rightarrow> LoopState \<Rightarrow> LoopState" where
  "scrape_loop cfg [] st = st"
| "scrape_loop cfg (env # envs) st =
     (let st' = scrape cfg env st
      in case exited st' of Some code \<Rightarrow> st' | None \<Rightarrow> scrape_loop cfg envs st')"

section \<open>The cardinal direction: total, periodic, eight arcs\<close>

lemma bucket_less: "bucket d < 8"
proof -
  have "round (d / 45) mod 8 < 8" by simp
  moreover have "0 \<le> round (d / 45) mod 8" by simp
  ultimately show ?thesis unfolding bucket_def by linarith
qed

lemma round_shift8: "round (x + 8 :: real) = round x + 8"
proof -
  have "x + 8 + 1 / 2 = (x + 1 / 2) + of_int 8" by simp
  then have "\<lfloor>x + 8 + 1 / 2\<rfloor> = \<lfloor>x + 1 / 2\<rfloor> + 8"
    by (metis floor_add_int)
  then show ?thesis by (simp add: round_def)
qed

lemma bucket_periodic: "bucket (d + 360) = bucket d"
proof -
  have e: "(d + 360) / 45 = d / 45 + 8" by simp
  have "round ((d + 360) / 45) = round (d / 45) + 8"
    unfolding e by (rule round_shift8)
  then show ?thesis by (simp add: bucket_def)
qed

lemma distinct_directions: "distinct directions"
  by (simp add: directions_def)

lemma length_directions: "length directions = 8"
  by (simp add: directions_def)

lemma bucket_arc:
  assumes "0 \<le> d" "d < 360" "k < 8"
  shows "bucket d = k \<longleftrightarrow>
           (45 * real k - 22.5 \<le> d \<and> d < 45 * real k + 22.5) \<or> (k = 0 \<and> 337.5 \<le> d)"
proof -
  define r where "r = round (d / 45)"
  have r_floor: "r = \<lfloor>d / 45 + 1 / 2\<rfloor>" by (simp add: r_def round_def)
  have r0: "0 \<le> r" using assms(1) by (simp add: r_floor)
  have "d / 45 + 1 / 2 < 9" using assms(2) by simp
  then have r8: "r \<le> 8" unfolding r_floor by (simp add: floor_less_iff)
  have eq_iff: "r = int j \<longleftrightarrow> 45 * real j - 22.5 \<le> d \<and> d < 45 * real j + 22.5" for j
  proof -
    have "r = int j \<longleftrightarrow> of_int (int j) \<le> d / 45 + 1 / 2 \<and> d / 45 + 1 / 2 < of_int (int j) + 1"
      unfolding r_floor by (rule floor_eq_iff)
    also have "\<dots> \<longleftrightarrow> 45 * real j - 22.5 \<le> d \<and> d < 45 * real j + 22.5"
      by (auto simp: field_simps)
    finally show ?thesis .
  qed
  have "bucket d = k \<longleftrightarrow> r mod 8 = int k"
    unfolding bucket_def r_def [symmetric] by (simp add: nat_eq_iff)
  also have "\<dots> \<longleftrightarrow> r = int k \<or> (k = 0 \<and> r = 8)"
    using r0 r8 assms(3) by presburger
  also have "\<dots> \<longleftrightarrow> (45 * real k - 22.5 \<le> d \<and> d < 45 * real k + 22.5) \<or> (k = 0 \<and> 337.5 \<le> d)"
  proof -
    have "r = 8 \<longleftrightarrow> 337.5 \<le> d"
      using eq_iff [of 8] assms(2) by auto
    then show ?thesis using eq_iff [of k] by simp
  qed
  finally show ?thesis .
qed

lemma CardinalDirection_eq_iff:
  "k < 8 \<Longrightarrow> CardinalDirection d = directions ! k \<longleftrightarrow> bucket d = k"
  unfolding CardinalDirection_def
  using bucket_less [of d] distinct_directions
  by (simp add: nth_eq_iff_index_eq length_directions)

lemma bucket_0: "bucket 0 = 0"
  by (simp add: bucket_def)

lemma bucket_90: "bucket 90 = 2"
  by (simp add: bucket_def)

lemma bucket_180: "bucket 180 = 4"
  by (simp add: bucket_def)

lemma bucket_270: "bucket 270 = 6"
  by (simp add: bucket_def)

text \<open>
  C6. The cardinal-direction mapping \<open>d \<mapsto> round (d / 45) mod 8\<close> is total and
  periodic: every real \<open>x\<close> has a bucket among the eight labels, and \<open>x\<close> and
  \<open>x + 360\<close> have the same label. The eight labels are distinct, and on \<open>[0, 360)\<close>
  the label of bucket \<open>k\<close> is given exactly on the arc of 45 degrees centred on
  \<open>45 k\<close> (for N, the arc around 0, which wraps at 360). 0 maps to N, 90 to E, 180 to
  S and 270 to W.
\<close>

theorem cardinal_mapping_total_periodic:
  "bucket x < length directions
   \<and> CardinalDirection x \<in> set directions
   \<and> CardinalDirection (x + 360) = CardinalDirection x
   \<and> distinct directions
   \<and> (0 \<le> d \<and> d < 360 \<and> k < 8 \<longrightarrow>
        (CardinalDirection d = directions ! k \<longleftrightarrow>
           (45 * real k - 22.5 \<le> d \<and> d < 45 * real k + 22.5) \<or> (k = 0 \<and> 337.5 \<le> d)))
   \<and> directions = [''N'', ''NE'', ''E'', ''SE'', ''S'', ''SW'', ''W'', ''NW'']
   \<and> CardinalDirection 0 = ''N'' \<and> CardinalDirection 90 = ''E''
   \<and> CardinalDirection 180 = ''S'' \<and> CardinalDirection 270 = ''W''"
proof -
  have total: "bucket x < length directions"
    using bucket_less [of x] by (simp add: length_directions)
  then have mem: "CardinalDirection x \<in> set directions"
    unfolding CardinalDirection_def by (rule nth_mem)
  have per: "CardinalDirection (x + 360) = CardinalDirection x"
    by (simp add: CardinalDirection_def bucket_periodic)
  have arcs: "0 \<le> d \<and> d < 360 \<and> k < 8 \<longrightarrow>
        (CardinalDirection d = directions ! k \<longleftrightarrow>
           (45 * real k - 22.5 \<le> d \<and> d < 45 * real k + 22.5) \<or> (k = 0 \<and> 337.5 \<le> d))"
  proof
    assume h: "0 \<le> d \<and> d < 360 \<and> k < 8"
    then have "CardinalDirection d = directions ! k \<longleftrightarrow> bucket d = k"
      by (simp add: CardinalDirection_eq_iff)
    also have "\<dots> \<longleftrightarrow>
        (45 * real k - 22.5 \<le> d \<and> d < 45 * real k + 22.5) \<or> (k = 0 \<and> 337.5 \<le> d)"
      using h by (intro bucket_arc) simp_all
    finally show "CardinalDirection d = directions ! k \<longleftrightarrow>
        (45 * real k - 22.5 \<le> d \<and> d < 45 * real k + 22.5) \<or> (k = 0 \<and> 337.5 \<le> d)" .
  qed
  have pts: "CardinalDirection 0 = ''N''" "CardinalDirection 90 = ''E''"
    "CardinalDirection 180 = ''S''" "CardinalDirection 270 = ''W''"
    by (simp_all add: CardinalDirection_def bucket_0 bucket_90 bucket_180 bucket_270
          directions_def)
  show ?thesis
    using total mem per distinct_directions arcs pts by (simp add: directions_def)
qed

theorem cardinal_mapping_witness:
  "(0::real) \<le> 100 \<and> (100::real) < 360 \<and> (2::nat) < 8
   \<and> CardinalDirection 100 = directions ! 2
   \<and> CardinalDirection 460 = ''E''
   \<and> CardinalDirection 337.5 = ''N''"
proof -
  have "CardinalDirection 100 = directions ! 2"
    using cardinal_mapping_total_periodic [of 100 100 2] by simp
  moreover have "CardinalDirection (100 + 360) = CardinalDirection 100"
    using cardinal_mapping_total_periodic [of 100 100 2] by blast
  moreover have "CardinalDirection 337.5 = directions ! 0"
    using cardinal_mapping_total_periodic [of 100 "337.5" 0] by simp
  ultimately show ?thesis by (simp add: directions_def)
qed

section \<open>What the Publishing phase stores\<close>

lemma valueOf_Some_iff:
  "valueOf p = Some v \<longleftrightarrow> (\<exists>q. p = Some q \<and> Value q = Some v)"
  by (cases p) (simp_all add: valueOf_def)

lemma valueOf_None_iff:
  "valueOf p = None \<longleftrightarrow> p = None \<or> (\<exists>q. p = Some q \<and> Value q = None)"
  by (cases p) (simp_all add: valueOf_def)

lemma snd_observe:
  "snd (observe p set_gauge name s) = snd s @ (if valueOf p = None then [name] else [])"
  by (simp add: observe_def split: option.split)

text \<open>A statement for one measurement leaves the gauges of the others alone.\<close>

lemma fst_observe_frame:
  "(\<And>v m. sel (set_gauge v m) = sel m) \<Longrightarrow>
     sel (fst (observe p set_gauge name s)) = sel (fst s)"
  by (simp add: observe_def split: option.split)

lemma fst_observe_hit:
  "(\<And>v m. sel (set_gauge v m) = upd v (sel m)) \<Longrightarrow>
     sel (fst (observe p set_gauge name s)) =
       (case valueOf p of Some v \<Rightarrow> upd v (sel (fst s)) | None \<Rightarrow> sel (fst s))"
  by (simp add: observe_def split: option.split)

lemmas observe_frames =
  fst_observe_frame [of humidity] fst_observe_frame [of temperature]
  fst_observe_frame [of dewpoint] fst_observe_frame [of winddirection]
  fst_observe_frame [of windspeed] fst_observe_frame [of barometricpressure]
  fst_observe_frame [of sealevelpressure] fst_observe_frame [of visibility]
  fst_observe_frame [of timeSinceUpdate]

lemma Publishing_humidity:
  "humidity (fst (Publishing now p m)) =
     (case valueOf (RelativeHumidity p) of Some v \<Rightarrow> v | None \<Rightarrow> humidity m)"
  unfolding Publishing_def Let_def
  by (simp add: observe_frames fst_observe_hit [of humidity _ "\<lambda>v x. v"]
        cong: option.case_cong)

lemma Publishing_temperature:
  "temperature (fst (Publishing now p m)) =
     (case valueOf (Temperature p) of Some v \<Rightarrow> v | None \<Rightarrow> temperature m)"
  unfolding Publishing_def Let_def
  by (simp add: observe_frames fst_observe_hit [of temperature _ "\<lambda>v x. v"]
        cong: option.case_cong)

lemma Publishing_dewpoint:
  "dewpoint (fst (Publishing now p m)) =
     (case valueOf (Dewpoint p) of Some v \<Rightarrow> v | None \<Rightarrow> dewpoint m)"
  unfolding Publishing_def Let_def
  by (simp add: observe_frames fst_observe_hit [of dewpoint _ "\<lambda>v x. v"]
        cong: option.case_cong)

lemma Publishing_winddirection:
  "winddirection (fst (Publishing now p m)) =
     (case valueOf (WindDirection p) of
        Some v \<Rightarrow> (winddirection m)(CardinalDirection v \<mapsto> v)
      | None \<Rightarrow> winddirection m)"
  unfolding Publishing_def Let_def
  by (simp add: observe_frames
        fst_observe_hit [of winddirection _ "\<lambda>v x. x(CardinalDirection v \<mapsto> v)"]
        cong: option.case_cong)

lemma Publishing_windspeed:
  "windspeed (fst (Publishing now p m)) =
     (case valueOf (WindSpeed p) of Some v \<Rightarrow> v | None \<Rightarrow> windspeed m)"
  unfolding Publishing_def Let_def
  by (simp add: observe_frames fst_observe_hit [of windspeed _ "\<lambda>v x. v"]
        cong: option.case_cong)

lemma Publishing_barometricpressure:
  "barometricpressure (fst (Publishing now p m)) =
     (case valueOf (BarometricPressure p) of
        Some v \<Rightarrow> v | None \<Rightarrow> barometricpressure m)"
  unfolding Publishing_def Let_def
  by (simp add: observe_frames fst_observe_hit [of barometricpressure _ "\<lambda>v x. v"]
        cong: option.case_cong)

lemma Publishing_sealevelpressure:
  "sealevelpressure (fst (Publishing now p m)) =
     (case valueOf (SeaLevelPressure p) of
        Some v \<Rightarrow> v | None \<Rightarrow> sealevelpressure m)"
  unfolding Publishing_def Let_def
  by (simp add: observe_frames fst_observe_hit [of sealevelpressure _ "\<lambda>v x. v"]
        cong: option.case_cong)

lemma Publishing_visibility:
  "visibility (fst (Publishing now p m)) =
     (case valueOf (Visibility p) of Some v \<Rightarrow> v | None \<Rightarrow> visibility m)"
  unfolding Publishing_def Let_def
  by (simp add: observe_frames fst_observe_hit [of visibility _ "\<lambda>v x. v"]
        cong: option.case_cong)

lemma Publishing_timeSinceUpdate:
  "timeSinceUpdate (fst (Publishing now p m)) = Seconds (Since now (Timestamp p))"
  unfolding Publishing_def Let_def
  by (simp add: observe_frames)

lemmas Publishing_gauges =
  Publishing_humidity Publishing_temperature Publishing_dewpoint Publishing_winddirection
  Publishing_windspeed Publishing_barometricpressure Publishing_sealevelpressure
  Publishing_visibility

lemma Publishing_missing:
  "snd (Publishing now p m) =
     (if valueOf (RelativeHumidity p) = None then [''RelativeHumidity''] else []) @
     (if valueOf (Temperature p) = None then [''Temperature''] else []) @
     (if valueOf (Dewpoint p) = None then [''Dewpoint''] else []) @
     (if valueOf (WindDirection p) = None then [''WindDirection''] else []) @
     (if valueOf (WindSpeed p) = None then [''WindSpeed''] else []) @
     (if valueOf (BarometricPressure p) = None then [''BarometricPressure''] else []) @
     (if valueOf (SeaLevelPressure p) = None then [''SeaLevelPressure''] else []) @
     (if valueOf (Visibility p) = None then [''Visibility''] else [])"
  unfolding Publishing_def Let_def
  by (simp only: snd_observe snd_conv append_Nil append_assoc)

text \<open>The names in \<^verbatim>\<open>missingProperties\<close>.\<close>

lemma mem_optional_append:
  "x \<in> set ((if c then [a] else []) @ xs) \<longleftrightarrow> (c \<and> x = a) \<or> x \<in> set xs"
  by auto

lemma mem_optional:
  "x \<in> set (if c then [a] else []) \<longleftrightarrow> c \<and> x = a"
  by auto

lemma missing_iff:
  "x \<in> set (snd (Publishing now p m)) \<longleftrightarrow>
     (valueOf (RelativeHumidity p) = None \<and> x = ''RelativeHumidity'')
     \<or> (valueOf (Temperature p) = None \<and> x = ''Temperature'')
     \<or> (valueOf (Dewpoint p) = None \<and> x = ''Dewpoint'')
     \<or> (valueOf (WindDirection p) = None \<and> x = ''WindDirection'')
     \<or> (valueOf (WindSpeed p) = None \<and> x = ''WindSpeed'')
     \<or> (valueOf (BarometricPressure p) = None \<and> x = ''BarometricPressure'')
     \<or> (valueOf (SeaLevelPressure p) = None \<and> x = ''SeaLevelPressure'')
     \<or> (valueOf (Visibility p) = None \<and> x = ''Visibility'')"
  by (simp only: Publishing_missing mem_optional_append mem_optional)

lemma missing_names:
  "''RelativeHumidity'' \<in> set (snd (Publishing now p m)) \<longleftrightarrow>
     valueOf (RelativeHumidity p) = None"
  "''Temperature'' \<in> set (snd (Publishing now p m)) \<longleftrightarrow> valueOf (Temperature p) = None"
  "''Dewpoint'' \<in> set (snd (Publishing now p m)) \<longleftrightarrow> valueOf (Dewpoint p) = None"
  "''WindDirection'' \<in> set (snd (Publishing now p m)) \<longleftrightarrow>
     valueOf (WindDirection p) = None"
  "''WindSpeed'' \<in> set (snd (Publishing now p m)) \<longleftrightarrow> valueOf (WindSpeed p) = None"
  "''BarometricPressure'' \<in> set (snd (Publishing now p m)) \<longleftrightarrow>
     valueOf (BarometricPressure p) = None"
  "''SeaLevelPressure'' \<in> set (snd (Publishing now p m)) \<longleftrightarrow>
     valueOf (SeaLevelPressure p) = None"
  "''Visibility'' \<in> set (snd (Publishing now p m)) \<longleftrightarrow> valueOf (Visibility p) = None"
  by (simp_all add: missing_iff)

lemma subseq_optional:
  "subseq xs ys \<Longrightarrow> subseq ((if c then [a] else []) @ xs) (a # ys)"
  by auto

lemma subseq_optional_last: "subseq (if c then [a] else []) [a]"
  by auto

lemma subseq_distinct: "subseq xs ys \<Longrightarrow> distinct ys \<Longrightarrow> distinct xs"
proof (induction rule: list_emb.induct)
  case (list_emb_Nil ys)
  then show ?case by simp
next
  case (list_emb_Cons xs ys y)
  then show ?case by simp
next
  case (list_emb_Cons2 x y xs ys)
  then have "x \<notin> set xs"
    by (auto elim: list_emb_set)
  with list_emb_Cons2 show ?case by simp
qed

lemma missing_subseq:
  "subseq (snd (Publishing now p m))
     [''RelativeHumidity'', ''Temperature'', ''Dewpoint'', ''WindDirection'', ''WindSpeed'',
      ''BarometricPressure'', ''SeaLevelPressure'', ''Visibility'']"
  unfolding Publishing_missing
  by (intro subseq_optional subseq_optional_last)

lemma map_filter_optional:
  "map fst (filter P (x # xs)) = (if P x then [fst x] else []) @ map fst (filter P xs)"
  by simp

lemma missing_filter:
  "snd (Publishing now p m) =
     map fst (filter (\<lambda>nf. valueOf (snd nf) = None)
       [(''RelativeHumidity'', RelativeHumidity p), (''Temperature'', Temperature p),
        (''Dewpoint'', Dewpoint p), (''WindDirection'', WindDirection p),
        (''WindSpeed'', WindSpeed p), (''BarometricPressure'', BarometricPressure p),
        (''SeaLevelPressure'', SeaLevelPressure p), (''Visibility'', Visibility p)])"
  by (simp only: Publishing_missing map_filter_optional filter.simps(1) list.map(1)
        fst_conv snd_conv append_Nil2)

section \<open>What one iteration of the loop does\<close>

lemma scrape_success:
  assumes "retrieved env = Inr (response, rawJSON)"
  shows "metrics (scrape cfg env st) =
           fst (Publishing (clock env) (Properties response) (metrics st))"
    and "missingProperties (scrape cfg env st) =
           snd (Publishing (clock env) (Properties response) (metrics st))"
    and "slept (scrape cfg env st) = slept st @ [backoffseconds cfg]"
    and "exited (scrape cfg env st) = exited st"
  using assms by (simp_all add: scrape_def Let_def logPrintf_def Sleep_def)

lemma scrape_success_logged:
  assumes "retrieved env = Inr (response, rawJSON)"
  shows "logged (scrape cfg env st) =
           logged st
           @ (if verbose cfg then [Raw_json rawJSON] else [])
           @ (if missingProperties (scrape cfg env st) = [] then []
              else [Missing_properties (missingProperties (scrape cfg env st))])
           @ (if verbose cfg
              then [Waiting (backofftime cfg) (logclock env + backoffseconds cfg)] else [])"
  using assms by (simp add: scrape_def Let_def logPrintf_def Sleep_def)

lemma scrape_retry:
  assumes "retrieved env = Inl err" and "\<not> failfast cfg"
  shows "scrape cfg env st =
           st\<lparr>logged := logged st @
                  [Problem_retrieving (address cfg) (station cfg) err,
                   Waiting (backofftime cfg) (logclock env + backoffseconds cfg)],
              slept := slept st @ [backoffseconds cfg]\<rparr>"
  using assms by (simp add: scrape_def logPrintf_def Sleep_def)

lemma scrape_fatal:
  assumes "retrieved env = Inl err" and "failfast cfg"
  shows "scrape cfg env st = st\<lparr>logged := logged st @ [Fatal_error err], exited := Some 1\<rparr>"
  using assms by (simp add: scrape_def logPrintf_def)

section \<open>The loop as a whole\<close>

lemma slept_scrape:
  "slept (scrape cfg env st) =
     slept st @ (if isl (retrieved env) \<and> failfast cfg then [] else [backoffseconds cfg])"
proof (cases "retrieved env")
  case (Inl err)
  then show ?thesis
    by (cases "failfast cfg") (simp_all add: scrape_fatal scrape_retry)
next
  case (Inr ok)
  obtain response rawJSON where "ok = (response, rawJSON)"
    by (cases ok)
  with Inr show ?thesis
    by (simp add: scrape_success(3))
qed

lemma exited_scrape:
  "exited (scrape cfg env st) =
     (if isl (retrieved env) \<and> failfast cfg then Some 1 else exited st)"
proof (cases "retrieved env")
  case (Inl err)
  then show ?thesis
    by (cases "failfast cfg") (simp_all add: scrape_fatal scrape_retry)
next
  case (Inr ok)
  obtain response rawJSON where "ok = (response, rawJSON)"
    by (cases ok)
  with Inr show ?thesis
    by (simp add: scrape_success(4))
qed

lemma slept_scrape_loop:
  "\<exists>k\<le>length envs. slept (scrape_loop cfg envs st) = slept st @ replicate k (backoffseconds cfg)"
proof (induction envs arbitrary: st)
  case Nil
  show ?case by simp
next
  case (Cons env envs)
  let ?st = "scrape cfg env st"
  let ?b = "backoffseconds cfg"
  obtain j where j: "j \<le> 1" "slept ?st = slept st @ replicate j ?b"
  proof (cases "isl (retrieved env) \<and> failfast cfg")
    case True
    then have "slept ?st = slept st @ replicate 0 ?b"
      by (simp add: slept_scrape)
    then show ?thesis using that [of 0] by simp
  next
    case False
    then have "slept ?st = slept st @ replicate 1 ?b"
      by (simp add: slept_scrape)
    then show ?thesis using that [of 1] by simp
  qed
  show ?case
  proof (cases "exited ?st")
    case (Some code)
    then have "scrape_loop cfg (env # envs) st = ?st"
      by simp
    with j show ?thesis
      by (intro exI [of _ j]) simp
  next
    case None
    then have loop: "scrape_loop cfg (env # envs) st = scrape_loop cfg envs ?st"
      by simp
    from Cons.IH [of ?st] obtain k where
      k: "k \<le> length envs" "slept (scrape_loop cfg envs ?st) = slept ?st @ replicate k ?b"
      by blast
    have "slept (scrape_loop cfg (env # envs) st) = slept st @ replicate (j + k) ?b"
      by (simp only: loop k(2) j(2) replicate_add append_assoc)
    moreover have "j + k \<le> length (env # envs)"
      using j(1) k(1) by simp
    ultimately show ?thesis by blast
  qed
qed

lemma scrape_loop_retries_forever:
  "\<not> failfast cfg \<Longrightarrow> exited st = None \<Longrightarrow>
     slept (scrape_loop cfg envs st) = slept st @ replicate (length envs) (backoffseconds cfg)
     \<and> exited (scrape_loop cfg envs st) = None"
proof (induction envs arbitrary: st)
  case Nil
  then show ?case by simp
next
  case (Cons env envs)
  let ?st = "scrape cfg env st"
  have ex: "exited ?st = None"
    using Cons.prems by (simp add: exited_scrape)
  have sl: "slept ?st = slept st @ [backoffseconds cfg]"
    using Cons.prems by (simp add: slept_scrape)
  have "scrape_loop cfg (env # envs) st = scrape_loop cfg envs ?st"
    using ex by simp
  with Cons.IH [OF Cons.prems(1) ex] sl show ?case
    by (simp add: replicate_app_Cons_same)
qed

text \<open>
  The duration of the sleep is the product of the flag and of a second, taken in 64
  bits: it wraps around. When the number of seconds of the flag is at most 9223372036
  in absolute value, the product fits and the duration is that many seconds.
\<close>

lemma backoffseconds_wraps:
  "backoffseconds cfg = (backofftime cfg * 1000000000 + 2 ^ 63) mod 2 ^ 64 - 2 ^ 63"
proof -
  define x where "x = backofftime cfg * 1000000000"
  have "backoffseconds cfg = sint (word_of_int x :: 64 word)"
    by (simp add: backoffseconds_def x_def)
  also have "\<dots> = (x + 2 ^ 63) mod 2 ^ 64 - 2 ^ 63"
    by (simp add: int_word_sint)
  finally show ?thesis
    by (simp add: x_def)
qed

lemma backoffseconds_in_range:
  assumes "- 9223372036 \<le> backofftime cfg" and "backofftime cfg \<le> 9223372036"
  shows "backoffseconds cfg = backofftime cfg * 1000000000"
proof -
  define x where "x = backofftime cfg * 1000000000"
  have lower: "- (2 ^ 63) \<le> x" and upper: "x < 2 ^ 63"
    using assms by (simp_all add: x_def)
  have "backoffseconds cfg = sint (word_of_int x :: 64 word)"
    by (simp add: backoffseconds_def x_def)
  also have "\<dots> = signed_take_bit 63 x"
    by (simp add: sint_sbintrunc')
  also have "\<dots> = x"
    using lower upper by (rule signed_take_bit_int_eq_self)
  finally show ?thesis
    by (simp add: x_def)
qed

section \<open>Publishing an observation\<close>

text \<open>
  C1. When the fetch succeeds and all eight measurements of the observation are there
  (\<open>valueOf\<close> gives a number: the wrapper and its \<^verbatim>\<open>Value\<close> are both set), then
  after the iteration every gauge holds the number of its measurement. The gauge of the
  wind direction is the child of the gauge vector labelled with the cardinal direction
  of the measurement. Nothing is reported missing.
\<close>

theorem all_fields_published:
  assumes "retrieved env = Inr (response, rawJSON)"
    and "valueOf (RelativeHumidity (Properties response)) = Some h"
    and "valueOf (Temperature (Properties response)) = Some t"
    and "valueOf (Dewpoint (Properties response)) = Some dp"
    and "valueOf (WindDirection (Properties response)) = Some wd"
    and "valueOf (WindSpeed (Properties response)) = Some ws"
    and "valueOf (BarometricPressure (Properties response)) = Some bp"
    and "valueOf (SeaLevelPressure (Properties response)) = Some sp"
    and "valueOf (Visibility (Properties response)) = Some vis"
  shows "humidity (metrics (scrape cfg env st)) = h
    \<and> temperature (metrics (scrape cfg env st)) = t
    \<and> dewpoint (metrics (scrape cfg env st)) = dp
    \<and> winddirection (metrics (scrape cfg env st)) (CardinalDirection wd) = Some wd
    \<and> windspeed (metrics (scrape cfg env st)) = ws
    \<and> barometricpressure (metrics (scrape cfg env st)) = bp
    \<and> sealevelpressure (metrics (scrape cfg env st)) = sp
    \<and> visibility (metrics (scrape cfg env st)) = vis
    \<and> missingProperties (scrape cfg env st) = []"
  using assms(2-)
  by (simp add: scrape_success [OF assms(1)] Publishing_gauges Publishing_missing)

theorem all_fields_published_witness:
  "(let st' = scrape
      \<lparr>station = ''KPHL'', address = ''api.weather.gov'', verbose = False, timeout = 10,
        backofftime = 100, failfast = False\<rparr>
      \<lparr>retrieved = Inr (\<lparr>Properties = \<lparr>Timestamp = 0, RelativeHumidity = Some \<lparr>Value = Some 40\<rparr>, Temperature = Some \<lparr>Value = Some 21.5\<rparr>, Dewpoint = Some \<lparr>Value = Some 7\<rparr>,
          WindDirection = Some \<lparr>Value = Some 90\<rparr>, WindSpeed = Some \<lparr>Value = Some 12\<rparr>, BarometricPressure = Some \<lparr>Value = Some 101325\<rparr>,
          SeaLevelPressure = Some \<lparr>Value = Some 101400\<rparr>, Visibility = Some \<lparr>Value = Some 16000\<rparr>\<rparr>\<rparr>, ''{}''),
        clock = 5000000000, logclock = 5000000000\<rparr>
      \<lparr>metrics = \<lparr>humidity = 55, temperature = 18, dewpoint = 9, winddirection = [''N'' \<mapsto> 10],
          windspeed = 7, barometricpressure = 101000, sealevelpressure = 101100,
          visibility = 9000, timeSinceUpdate = 60\<rparr>,
        logged = [], slept = [], missingProperties = [], exited = None\<rparr>
    in humidity (metrics st') = 40 \<and> temperature (metrics st') = 21.5
       \<and> dewpoint (metrics st') = 7 \<and> winddirection (metrics st') ''E'' = Some 90
       \<and> windspeed (metrics st') = 12 \<and> barometricpressure (metrics st') = 101325
       \<and> sealevelpressure (metrics st') = 101400 \<and> visibility (metrics st') = 16000
       \<and> missingProperties st' = [])"
  using all_fields_published [of
      "\<lparr>retrieved = Inr (\<lparr>Properties = \<lparr>Timestamp = 0, RelativeHumidity = Some \<lparr>Value = Some 40\<rparr>, Temperature = Some \<lparr>Value = Some 21.5\<rparr>, Dewpoint = Some \<lparr>Value = Some 7\<rparr>,
          WindDirection = Some \<lparr>Value = Some 90\<rparr>, WindSpeed = Some \<lparr>Value = Some 12\<rparr>, BarometricPressure = Some \<lparr>Value = Some 101325\<rparr>,
          SeaLevelPressure = Some \<lparr>Value = Some 101400\<rparr>, Visibility = Some \<lparr>Value = Some 16000\<rparr>\<rparr>\<rparr>, ''{}''),
        clock = 5000000000, logclock = 5000000000\<rparr>"
      "\<lparr>Properties = \<lparr>Timestamp = 0, RelativeHumidity = Some \<lparr>Value = Some 40\<rparr>, Temperature = Some \<lparr>Value = Some 21.5\<rparr>, Dewpoint = Some \<lparr>Value = Some 7\<rparr>,
          WindDirection = Some \<lparr>Value = Some 90\<rparr>, WindSpeed = Some \<lparr>Value = Some 12\<rparr>, BarometricPressure = Some \<lparr>Value = Some 101325\<rparr>,
          SeaLevelPressure = Some \<lparr>Value = Some 101400\<rparr>, Visibility = Some \<lparr>Value = Some 16000\<rparr>\<rparr>\<rparr>" "''{}''" 40 "21.5" 7 90 12 101325 101400 16000
      "\<lparr>station = ''KPHL'', address = ''api.weather.gov'', verbose = False, timeout = 10,
        backofftime = 100, failfast = False\<rparr>"
      "\<lparr>metrics = \<lparr>humidity = 55, temperature = 18, dewpoint = 9, winddirection = [''N'' \<mapsto> 10],
          windspeed = 7, barometricpressure = 101000, sealevelpressure = 101100,
          visibility = 9000, timeSinceUpdate = 60\<rparr>,
        logged = [], slept = [], missingProperties = [], exited = None\<rparr>"]
  by (simp add: valueOf_def CardinalDirection_def bucket_def directions_def)

text \<open>
  C2. When the fetch succeeds, each of the eight measurements is handled by itself. A
  measurement that is absent (\<open>valueOf\<close> gives \<open>None\<close>: the wrapper or its
  \<^verbatim>\<open>Value\<close> is \<^verbatim>\<open>nil\<close>) leaves its gauge at the value it had before the
  iteration, and its name is in \<^verbatim>\<open>missingProperties\<close>; a measurement that is there
  is stored in its gauge, whatever the other measurements are.
\<close>

theorem missing_field_keeps_gauge:
  assumes "retrieved env = Inr (response, rawJSON)"
  shows "(let p = Properties response; m = metrics st; m' = metrics (scrape cfg env st);
              missing = missingProperties (scrape cfg env st)
          in (case valueOf (RelativeHumidity p) of
                Some v \<Rightarrow> humidity m' = v
              | None \<Rightarrow> humidity m' = humidity m \<and> ''RelativeHumidity'' \<in> set missing)
           \<and> (case valueOf (Temperature p) of
                Some v \<Rightarrow> temperature m' = v
              | None \<Rightarrow> temperature m' = temperature m \<and> ''Temperature'' \<in> set missing)
           \<and> (case valueOf (Dewpoint p) of
                Some v \<Rightarrow> dewpoint m' = v
              | None \<Rightarrow> dewpoint m' = dewpoint m \<and> ''Dewpoint'' \<in> set missing)
           \<and> (case valueOf (WindDirection p) of
                Some v \<Rightarrow> winddirection m' (CardinalDirection v) = Some v
              | None \<Rightarrow> winddirection m' = winddirection m \<and> ''WindDirection'' \<in> set missing)
           \<and> (case valueOf (WindSpeed p) of
                Some v \<Rightarrow> windspeed m' = v
              | None \<Rightarrow> windspeed m' = windspeed m \<and> ''WindSpeed'' \<in> set missing)
           \<and> (case valueOf (BarometricPressure p) of
                Some v \<Rightarrow> barometricpressure m' = v
              | None \<Rightarrow> barometricpressure m' = barometricpressure m \<and> ''BarometricPressure'' \<in> set missing)
           \<and> (case valueOf (SeaLevelPressure p) of
                Some v \<Rightarrow> sealevelpressure m' = v
              | None \<Rightarrow> sealevelpressure m' = sealevelpressure m \<and> ''SeaLevelPressure'' \<in> set missing)
           \<and> (case valueOf (Visibility p) of
                Some v \<Rightarrow> visibility m' = v
              | None \<Rightarrow> visibility m' = visibility m \<and> ''Visibility'' \<in> set missing))"
  unfolding Let_def
  by (simp add: scrape_success [OF assms] Publishing_gauges missing_names
        split: option.split)

theorem missing_field_keeps_gauge_witness:
  "(let st' = scrape
      \<lparr>station = ''KPHL'', address = ''api.weather.gov'', verbose = False, timeout = 10,
        backofftime = 100, failfast = False\<rparr>
      \<lparr>retrieved = Inr (\<lparr>Properties = \<lparr>Timestamp = 1000000000, RelativeHumidity = None, Temperature = Some \<lparr>Value = Some 21.5\<rparr>, Dewpoint = Some \<lparr>Value = None\<rparr>,
          WindDirection = Some \<lparr>Value = Some 90\<rparr>, WindSpeed = None, BarometricPressure = Some \<lparr>Value = Some 101325\<rparr>,
          SeaLevelPressure = Some \<lparr>Value = None\<rparr>, Visibility = Some \<lparr>Value = Some 16000\<rparr>\<rparr>\<rparr>, ''{}''),
        clock = 6000000000, logclock = 6000000000\<rparr>
      \<lparr>metrics = \<lparr>humidity = 55, temperature = 18, dewpoint = 9, winddirection = [''N'' \<mapsto> 10],
          windspeed = 7, barometricpressure = 101000, sealevelpressure = 101100,
          visibility = 9000, timeSinceUpdate = 60\<rparr>,
        logged = [], slept = [], missingProperties = [], exited = None\<rparr>
    in humidity (metrics st') = 55 \<and> ''RelativeHumidity'' \<in> set (missingProperties st')
       \<and> dewpoint (metrics st') = 9 \<and> ''Dewpoint'' \<in> set (missingProperties st')
       \<and> windspeed (metrics st') = 7 \<and> ''WindSpeed'' \<in> set (missingProperties st')
       \<and> sealevelpressure (metrics st') = 101100
       \<and> ''SeaLevelPressure'' \<in> set (missingProperties st')
       \<and> temperature (metrics st') = 21.5 \<and> winddirection (metrics st') ''E'' = Some 90
       \<and> barometricpressure (metrics st') = 101325 \<and> visibility (metrics st') = 16000)"
proof -
  have fetched: "retrieved
      \<lparr>retrieved = Inr (\<lparr>Properties = \<lparr>Timestamp = 1000000000, RelativeHumidity = None, Temperature = Some \<lparr>Value = Some 21.5\<rparr>, Dewpoint = Some \<lparr>Value = None\<rparr>,
          WindDirection = Some \<lparr>Value = Some 90\<rparr>, WindSpeed = None, BarometricPressure = Some \<lparr>Value = Some 101325\<rparr>,
          SeaLevelPressure = Some \<lparr>Value = None\<rparr>, Visibility = Some \<lparr>Value = Some 16000\<rparr>\<rparr>\<rparr>, ''{}''),
        clock = 6000000000, logclock = 6000000000\<rparr>
    = Inr (\<lparr>Properties = \<lparr>Timestamp = 1000000000, RelativeHumidity = None, Temperature = Some \<lparr>Value = Some 21.5\<rparr>, Dewpoint = Some \<lparr>Value = None\<rparr>,
          WindDirection = Some \<lparr>Value = Some 90\<rparr>, WindSpeed = None, BarometricPressure = Some \<lparr>Value = Some 101325\<rparr>,
          SeaLevelPressure = Some \<lparr>Value = None\<rparr>, Visibility = Some \<lparr>Value = Some 16000\<rparr>\<rparr>\<rparr>, ''{}'')"
    by simp
  show ?thesis
    using missing_field_keeps_gauge [OF fetched, of
      "\<lparr>metrics = \<lparr>humidity = 55, temperature = 18, dewpoint = 9, winddirection = [''N'' \<mapsto> 10],
          windspeed = 7, barometricpressure = 101000, sealevelpressure = 101100,
          visibility = 9000, timeSinceUpdate = 60\<rparr>,
        logged = [], slept = [], missingProperties = [], exited = None\<rparr>"
      "\<lparr>station = ''KPHL'', address = ''api.weather.gov'', verbose = False, timeout = 10,
        backofftime = 100, failfast = False\<rparr>"]
    by (simp add: Let_def valueOf_def CardinalDirection_def bucket_def directions_def)
qed

text \<open>
  C5, as the loop has it. When the fetch succeeds, the iteration sets the gauge
  \<^verbatim>\<open>time_since_update\<close> to \<^verbatim>\<open>time.Since(Timestamp).Seconds()\<close>, whichever of
  the eight measurements are there, also when none is. That is the wall clock minus the
  timestamp, in seconds, when the difference fits in a duration (a signed 64-bit count
  of nanoseconds, about 292 years), and the largest or the smallest duration, in seconds,
  when the difference is above or below.
\<close>

theorem time_since_update_always_set:
  assumes "retrieved env = Inr (response, rawJSON)"
  shows "timeSinceUpdate (metrics (scrape cfg env st)) =
           Seconds (Since (clock env) (Timestamp (Properties response)))
    \<and> (minDuration \<le> clock env - Timestamp (Properties response)
         \<and> clock env - Timestamp (Properties response) \<le> maxDuration \<longrightarrow>
       timeSinceUpdate (metrics (scrape cfg env st)) =
         real_of_int (clock env - Timestamp (Properties response)) / 1000000000)
    \<and> (maxDuration < clock env - Timestamp (Properties response) \<longrightarrow>
       timeSinceUpdate (metrics (scrape cfg env st)) = real_of_int maxDuration / 1000000000)
    \<and> (clock env - Timestamp (Properties response) < minDuration \<longrightarrow>
       timeSinceUpdate (metrics (scrape cfg env st)) = real_of_int minDuration / 1000000000)"
proof -
  have "minDuration \<le> maxDuration"
    by (simp add: minDuration_def maxDuration_def)
  then show ?thesis
    by (auto simp: scrape_success(1) [OF assms] Publishing_timeSinceUpdate Since_def
          Seconds_def Let_def)
qed

theorem time_since_update_always_set_witness:
  "(let st' = scrape
      \<lparr>station = ''KPHL'', address = ''api.weather.gov'', verbose = False, timeout = 10,
        backofftime = 100, failfast = False\<rparr>
      \<lparr>retrieved = Inr (\<lparr>Properties = \<lparr>Timestamp = 1000000000, RelativeHumidity = None, Temperature = Some \<lparr>Value = None\<rparr>, Dewpoint = None,
          WindDirection = Some \<lparr>Value = None\<rparr>, WindSpeed = None, BarometricPressure = Some \<lparr>Value = None\<rparr>,
          SeaLevelPressure = None, Visibility = Some \<lparr>Value = None\<rparr>\<rparr>\<rparr>, ''{}''),
        clock = 6000000000, logclock = 6000000000\<rparr>
      \<lparr>metrics = \<lparr>humidity = 55, temperature = 18, dewpoint = 9, winddirection = [''N'' \<mapsto> 10],
          windspeed = 7, barometricpressure = 101000, sealevelpressure = 101100,
          visibility = 9000, timeSinceUpdate = 60\<rparr>,
        logged = [], slept = [], missingProperties = [], exited = None\<rparr>
    in timeSinceUpdate (metrics st') = 5
       \<and> length (missingProperties st') = 8
       \<and> humidity (metrics st') = 55)"
proof -
  have fetched: "retrieved
      \<lparr>retrieved = Inr (\<lparr>Properties = \<lparr>Timestamp = 1000000000, RelativeHumidity = None, Temperature = Some \<lparr>Value = None\<rparr>, Dewpoint = None,
          WindDirection = Some \<lparr>Value = None\<rparr>, WindSpeed = None, BarometricPressure = Some \<lparr>Value = None\<rparr>,
          SeaLevelPressure = None, Visibility = Some \<lparr>Value = None\<rparr>\<rparr>\<rparr>, ''{}''),
        clock = 6000000000, logclock = 6000000000\<rparr>
    = Inr (\<lparr>Properties = \<lparr>Timestamp = 1000000000, RelativeHumidity = None, Temperature = Some \<lparr>Value = None\<rparr>, Dewpoint = None,
          WindDirection = Some \<lparr>Value = None\<rparr>, WindSpeed = None, BarometricPressure = Some \<lparr>Value = None\<rparr>,
          SeaLevelPressure = None, Visibility = Some \<lparr>Value = None\<rparr>\<rparr>\<rparr>, ''{}'')"
    by simp
  show ?thesis
    using time_since_update_always_set [OF fetched, where
      st = "\<lparr>metrics = \<lparr>humidity = 55, temperature = 18, dewpoint = 9, winddirection = [''N'' \<mapsto> 10],
          windspeed = 7, barometricpressure = 101000, sealevelpressure = 101100,
          visibility = 9000, timeSinceUpdate = 60\<rparr>,
        logged = [], slept = [], missingProperties = [], exited = None\<rparr>"
      and cfg = "\<lparr>station = ''KPHL'', address = ''api.weather.gov'', verbose = False, timeout = 10,
        backofftime = 100, failfast = False\<rparr>"]
      scrape_success(1,2) [OF fetched, where
      st = "\<lparr>metrics = \<lparr>humidity = 55, temperature = 18, dewpoint = 9, winddirection = [''N'' \<mapsto> 10],
          windspeed = 7, barometricpressure = 101000, sealevelpressure = 101100,
          visibility = 9000, timeSinceUpdate = 60\<rparr>,
        logged = [], slept = [], missingProperties = [], exited = None\<rparr>"
      and cfg = "\<lparr>station = ''KPHL'', address = ''api.weather.gov'', verbose = False, timeout = 10,
        backofftime = 100, failfast = False\<rparr>"]
    by (simp add: Let_def minDuration_def maxDuration_def Publishing_humidity
          Publishing_missing valueOf_def)
qed

text \<open>
  An observation whose timestamp is the zero time (1 January of the year 1, the value
  of a \<^verbatim>\<open>time.Time\<close> that was never set), fetched on 31 October 2026: the gauge is
  set to the largest duration, 9223372036.854775807 seconds, not to the wall clock minus
  the timestamp, which is 63929001600 seconds.
\<close>

theorem time_since_update_saturates:
  "timeSinceUpdate (metrics (scrape
      \<lparr>station = ''KPHL'', address = ''api.weather.gov'', verbose = False, timeout = 10,
        backofftime = 100, failfast = False\<rparr>
      \<lparr>retrieved = Inr (\<lparr>Properties = \<lparr>Timestamp = - 62135596800000000000, RelativeHumidity = Some \<lparr>Value = Some 40\<rparr>, Temperature = Some \<lparr>Value = Some 21.5\<rparr>, Dewpoint = Some \<lparr>Value = Some 7\<rparr>,
          WindDirection = Some \<lparr>Value = Some 90\<rparr>, WindSpeed = Some \<lparr>Value = Some 12\<rparr>, BarometricPressure = Some \<lparr>Value = Some 101325\<rparr>,
          SeaLevelPressure = Some \<lparr>Value = Some 101400\<rparr>, Visibility = Some \<lparr>Value = Some 16000\<rparr>\<rparr>\<rparr>, ''{}''),
        clock = 1793404800000000000, logclock = 1793404800000000000\<rparr>
      \<lparr>metrics = \<lparr>humidity = 55, temperature = 18, dewpoint = 9, winddirection = [''N'' \<mapsto> 10],
          windspeed = 7, barometricpressure = 101000, sealevelpressure = 101100,
          visibility = 9000, timeSinceUpdate = 60\<rparr>,
        logged = [], slept = [], missingProperties = [], exited = None\<rparr>))
     = 9223372036854775807 / 1000000000
   \<and> timeSinceUpdate (metrics (scrape
      \<lparr>station = ''KPHL'', address = ''api.weather.gov'', verbose = False, timeout = 10,
        backofftime = 100, failfast = False\<rparr>
      \<lparr>retrieved = Inr (\<lparr>Properties = \<lparr>Timestamp = - 62135596800000000000, RelativeHumidity = Some \<lparr>Value = Some 40\<rparr>, Temperature = Some \<lparr>Value = Some 21.5\<rparr>, Dewpoint = Some \<lparr>Value = Some 7\<rparr>,
          WindDirection = Some \<lparr>Value = Some 90\<rparr>, WindSpeed = Some \<lparr>Value = Some 12\<rparr>, BarometricPressure = Some \<lparr>Value = Some 101325\<rparr>,
          SeaLevelPressure = Some \<lparr>Value = Some 101400\<rparr>, Visibility = Some \<lparr>Value = Some 16000\<rparr>\<rparr>\<rparr>, ''{}''),
        clock = 1793404800000000000, logclock = 1793404800000000000\<rparr>
      \<lparr>metrics = \<lparr>humidity = 55, temperature = 18, dewpoint = 9, winddirection = [''N'' \<mapsto> 10],
          windspeed = 7, barometricpressure = 101000, sealevelpressure = 101100,
          visibility = 9000, timeSinceUpdate = 60\<rparr>,
        logged = [], slept = [], missingProperties = [], exited = None\<rparr>))
     \<noteq> real_of_int (1793404800000000000 - (- 62135596800000000000)) / 1000000000"
proof -
  have fetched: "retrieved
      \<lparr>retrieved = Inr (\<lparr>Properties = \<lparr>Timestamp = - 62135596800000000000, RelativeHumidity = Some \<lparr>Value = Some 40\<rparr>, Temperature = Some \<lparr>Value = Some 21.5\<rparr>, Dewpoint = Some \<lparr>Value = Some 7\<rparr>,
          WindDirection = Some \<lparr>Value = Some 90\<rparr>, WindSpeed = Some \<lparr>Value = Some 12\<rparr>, BarometricPressure = Some \<lparr>Value = Some 101325\<rparr>,
          SeaLevelPressure = Some \<lparr>Value = Some 101400\<rparr>, Visibility = Some \<lparr>Value = Some 16000\<rparr>\<rparr>\<rparr>, ''{}''),
        clock = 1793404800000000000, logclock = 1793404800000000000\<rparr>
    = Inr (\<lparr>Properties = \<lparr>Timestamp = - 62135596800000000000, RelativeHumidity = Some \<lparr>Value = Some 40\<rparr>, Temperature = Some \<lparr>Value = Some 21.5\<rparr>, Dewpoint = Some \<lparr>Value = Some 7\<rparr>,
          WindDirection = Some \<lparr>Value = Some 90\<rparr>, WindSpeed = Some \<lparr>Value = Some 12\<rparr>, BarometricPressure = Some \<lparr>Value = Some 101325\<rparr>,
          SeaLevelPressure = Some \<lparr>Value = Some 101400\<rparr>, Visibility = Some \<lparr>Value = Some 16000\<rparr>\<rparr>\<rparr>, ''{}'')"
    by simp
  show ?thesis
    unfolding scrape_success(1) [OF fetched] Publishing_timeSinceUpdate
    by (simp add: Since_def Seconds_def Let_def maxDuration_def minDuration_def)
qed

text \<open>
  C7. When the fetch succeeds and the wind direction is there with a degree value
  \<open>d\<close>, the iteration sets the child of the gauge vector \<^verbatim>\<open>wind_direction\<close>
  whose label is the cardinal direction of \<open>d\<close> to \<open>d\<close> itself, and the children
  for all other labels keep what they held before (also a label that has no child yet
  still has none).
\<close>

theorem wind_direction_labelled_gauge:
  assumes "retrieved env = Inr (response, rawJSON)"
    and "valueOf (WindDirection (Properties response)) = Some d"
  shows "winddirection (metrics (scrape cfg env st)) (CardinalDirection d) = Some d
    \<and> (\<forall>label. label \<noteq> CardinalDirection d \<longrightarrow>
          winddirection (metrics (scrape cfg env st)) label = winddirection (metrics st) label)"
  using assms(2) by (simp add: scrape_success(1) [OF assms(1)] Publishing_winddirection)

theorem wind_direction_labelled_gauge_witness:
  "(let m' = metrics (scrape
      \<lparr>station = ''KPHL'', address = ''api.weather.gov'', verbose = False, timeout = 10,
        backofftime = 100, failfast = False\<rparr>
      \<lparr>retrieved = Inr (\<lparr>Properties = \<lparr>Timestamp = 1000000000, RelativeHumidity = None, Temperature = Some \<lparr>Value = Some 21.5\<rparr>, Dewpoint = Some \<lparr>Value = None\<rparr>,
          WindDirection = Some \<lparr>Value = Some 90\<rparr>, WindSpeed = None, BarometricPressure = Some \<lparr>Value = Some 101325\<rparr>,
          SeaLevelPressure = Some \<lparr>Value = None\<rparr>, Visibility = Some \<lparr>Value = Some 16000\<rparr>\<rparr>\<rparr>, ''{}''),
        clock = 6000000000, logclock = 6000000000\<rparr>
      \<lparr>metrics = \<lparr>humidity = 55, temperature = 18, dewpoint = 9, winddirection = [''N'' \<mapsto> 10],
          windspeed = 7, barometricpressure = 101000, sealevelpressure = 101100,
          visibility = 9000, timeSinceUpdate = 60\<rparr>,
        logged = [], slept = [], missingProperties = [], exited = None\<rparr>)
    in winddirection m' ''E'' = Some 90 \<and> winddirection m' ''N'' = Some 10
       \<and> winddirection m' ''S'' = None)"
proof -
  have fetched: "retrieved
      \<lparr>retrieved = Inr (\<lparr>Properties = \<lparr>Timestamp = 1000000000, RelativeHumidity = None, Temperature = Some \<lparr>Value = Some 21.5\<rparr>, Dewpoint = Some \<lparr>Value = None\<rparr>,
          WindDirection = Some \<lparr>Value = Some 90\<rparr>, WindSpeed = None, BarometricPressure = Some \<lparr>Value = Some 101325\<rparr>,
          SeaLevelPressure = Some \<lparr>Value = None\<rparr>, Visibility = Some \<lparr>Value = Some 16000\<rparr>\<rparr>\<rparr>, ''{}''),
        clock = 6000000000, logclock = 6000000000\<rparr>
    = Inr (\<lparr>Properties = \<lparr>Timestamp = 1000000000, RelativeHumidity = None, Temperature = Some \<lparr>Value = Some 21.5\<rparr>, Dewpoint = Some \<lparr>Value = None\<rparr>,
          WindDirection = Some \<lparr>Value = Some 90\<rparr>, WindSpeed = None, BarometricPressure = Some \<lparr>Value = Some 101325\<rparr>,
          SeaLevelPressure = Some \<lparr>Value = None\<rparr>, Visibility = Some \<lparr>Value = Some 16000\<rparr>\<rparr>\<rparr>, ''{}'')"
    by simp
  have there: "valueOf (WindDirection (Properties
      \<lparr>Properties = \<lparr>Timestamp = 1000000000, RelativeHumidity = None, Temperature = Some \<lparr>Value = Some 21.5\<rparr>, Dewpoint = Some \<lparr>Value = None\<rparr>,
          WindDirection = Some \<lparr>Value = Some 90\<rparr>, WindSpeed = None, BarometricPressure = Some \<lparr>Value = Some 101325\<rparr>,
          SeaLevelPressure = Some \<lparr>Value = None\<rparr>, Visibility = Some \<lparr>Value = Some 16000\<rparr>\<rparr>\<rparr>)) = Some 90"
    by (simp add: valueOf_def)
  have east: "CardinalDirection 90 = ''E''"
    by (simp add: CardinalDirection_def bucket_def directions_def)
  show ?thesis
    using wind_direction_labelled_gauge [OF fetched there, where
      st = "\<lparr>metrics = \<lparr>humidity = 55, temperature = 18, dewpoint = 9, winddirection = [''N'' \<mapsto> 10],
          windspeed = 7, barometricpressure = 101000, sealevelpressure = 101100,
          visibility = 9000, timeSinceUpdate = 60\<rparr>,
        logged = [], slept = [], missingProperties = [], exited = None\<rparr>"
      and cfg = "\<lparr>station = ''KPHL'', address = ''api.weather.gov'', verbose = False, timeout = 10,
        backofftime = 100, failfast = False\<rparr>"]
    by (simp add: Let_def east)
qed

text \<open>
  C10. The list \<^verbatim>\<open>missingProperties\<close> built by the Publishing phase is a
  subsequence of the eight names in the order of the source, has no name twice and so
  has at most eight entries, and a name is in it exactly when its measurement is absent
  (\<open>valueOf\<close> gives \<open>None\<close>: the wrapper or its \<^verbatim>\<open>Value\<close> is \<^verbatim>\<open>nil\<close>). It
  is the list of the names of the absent measurements, in that order.
\<close>

theorem missing_properties_ordered:
  "subseq (snd (Publishing now p m))
     [''RelativeHumidity'', ''Temperature'', ''Dewpoint'', ''WindDirection'', ''WindSpeed'',
      ''BarometricPressure'', ''SeaLevelPressure'', ''Visibility'']
   \<and> distinct (snd (Publishing now p m))
   \<and> length (snd (Publishing now p m)) \<le> 8
   \<and> (''RelativeHumidity'' \<in> set (snd (Publishing now p m)) \<longleftrightarrow>
        valueOf (RelativeHumidity p) = None)
   \<and> (''Temperature'' \<in> set (snd (Publishing now p m)) \<longleftrightarrow> valueOf (Temperature p) = None)
   \<and> (''Dewpoint'' \<in> set (snd (Publishing now p m)) \<longleftrightarrow> valueOf (Dewpoint p) = None)
   \<and> (''WindDirection'' \<in> set (snd (Publishing now p m)) \<longleftrightarrow>
        valueOf (WindDirection p) = None)
   \<and> (''WindSpeed'' \<in> set (snd (Publishing now p m)) \<longleftrightarrow> valueOf (WindSpeed p) = None)
   \<and> (''BarometricPressure'' \<in> set (snd (Publishing now p m)) \<longleftrightarrow>
        valueOf (BarometricPressure p) = None)
   \<and> (''SeaLevelPressure'' \<in> set (snd (Publishing now p m)) \<longleftrightarrow>
        valueOf (SeaLevelPressure p) = None)
   \<and> (''Visibility'' \<in> set (snd (Publishing now p m)) \<longleftrightarrow> valueOf (Visibility p) = None)
   \<and> snd (Publishing now p m) =
       map fst (filter (\<lambda>nf. valueOf (snd nf) = None)
         [(''RelativeHumidity'', RelativeHumidity p), (''Temperature'', Temperature p),
          (''Dewpoint'', Dewpoint p), (''WindDirection'', WindDirection p),
          (''WindSpeed'', WindSpeed p), (''BarometricPressure'', BarometricPressure p),
          (''SeaLevelPressure'', SeaLevelPressure p), (''Visibility'', Visibility p)])
   \<and> (valueOf (RelativeHumidity p) = None \<longleftrightarrow>
        RelativeHumidity p = None
        \<or> (\<exists>q. RelativeHumidity p = Some q \<and> Value q = None))"
proof -
  let ?names = "[''RelativeHumidity'', ''Temperature'', ''Dewpoint'', ''WindDirection'',
      ''WindSpeed'', ''BarometricPressure'', ''SeaLevelPressure'', ''Visibility'']"
  have sub: "subseq (snd (Publishing now p m)) ?names"
    by (rule missing_subseq)
  have "distinct ?names"
    by simp
  with sub have dist: "distinct (snd (Publishing now p m))"
    by (rule subseq_distinct)
  have "length (snd (Publishing now p m)) \<le> length ?names"
    using sub by (rule list_emb_length)
  then have len: "length (snd (Publishing now p m)) \<le> 8"
    by simp
  show ?thesis
    using sub dist len missing_filter [of now p m] valueOf_None_iff [of "RelativeHumidity p"]
    by (simp only: missing_names) simp
qed

section \<open>Failed fetches and the pace of the loop\<close>

text \<open>
  C3, as the loop has it. When the fetch fails and \<^verbatim>\<open>failfast\<close> is not set, the
  iteration changes no gauge (the age of the observation included), writes two lines to
  the log (the error, then the notice of the wait), sleeps once and goes on with the next
  iteration. The sleep is for \<^verbatim>\<open>time.Duration(backofftime) * time.Second\<close>, a
  product in 64 bits: the configured \<^verbatim>\<open>backofftime\<close> seconds when that number is
  at most 9223372036 in absolute value, and the wrapped product beyond. Nothing of the
  failure is kept: a successful fetch after it leaves the gauges and
  \<^verbatim>\<open>missingProperties\<close> as the same fetch would without the failure before it.
\<close>

theorem fetch_error_retry:
  assumes "retrieved env = Inl err" and "\<not> failfast cfg"
  shows "metrics (scrape cfg env st) = metrics st
    \<and> logged (scrape cfg env st) =
        logged st @ [Problem_retrieving (address cfg) (station cfg) err,
                     Waiting (backofftime cfg) (logclock env + backoffseconds cfg)]
    \<and> slept (scrape cfg env st) = slept st @ [backoffseconds cfg]
    \<and> backoffseconds cfg = (backofftime cfg * 1000000000 + 2 ^ 63) mod 2 ^ 64 - 2 ^ 63
    \<and> (- 9223372036 \<le> backofftime cfg \<and> backofftime cfg \<le> 9223372036 \<longrightarrow>
          slept (scrape cfg env st) = slept st @ [backofftime cfg * 1000000000])
    \<and> exited (scrape cfg env st) = exited st
    \<and> (exited st = None \<longrightarrow>
          scrape_loop cfg (env # envs) st = scrape_loop cfg envs (scrape cfg env st))
    \<and> (retrieved env' = Inr (response, rawJSON) \<longrightarrow>
          metrics (scrape cfg env' (scrape cfg env st)) = metrics (scrape cfg env' st)
          \<and> missingProperties (scrape cfg env' (scrape cfg env st)) =
              missingProperties (scrape cfg env' st)
          \<and> exited (scrape cfg env' (scrape cfg env st)) = exited (scrape cfg env' st))"
proof -
  have after: "metrics (scrape cfg env st) = metrics st"
    "exited (scrape cfg env st) = exited st"
    by (simp_all add: scrape_retry [OF assms])
  have "retrieved env' = Inr (response, rawJSON) \<longrightarrow>
          metrics (scrape cfg env' (scrape cfg env st)) = metrics (scrape cfg env' st)
          \<and> missingProperties (scrape cfg env' (scrape cfg env st)) =
              missingProperties (scrape cfg env' st)
          \<and> exited (scrape cfg env' (scrape cfg env st)) = exited (scrape cfg env' st)"
    by (simp add: scrape_success after)
  moreover have "exited st = None \<longrightarrow>
          scrape_loop cfg (env # envs) st = scrape_loop cfg envs (scrape cfg env st)"
    by (simp add: after)
  moreover have out: "logged (scrape cfg env st) =
        logged st @ [Problem_retrieving (address cfg) (station cfg) err,
                     Waiting (backofftime cfg) (logclock env + backoffseconds cfg)]"
    "slept (scrape cfg env st) = slept st @ [backoffseconds cfg]"
    by (simp_all add: scrape_retry [OF assms])
  moreover have "- 9223372036 \<le> backofftime cfg \<and> backofftime cfg \<le> 9223372036 \<longrightarrow>
          slept (scrape cfg env st) = slept st @ [backofftime cfg * 1000000000]"
    using out(2) by (simp add: backoffseconds_in_range)
  ultimately show ?thesis
    using after backoffseconds_wraps [of cfg] by blast
qed

theorem fetch_error_retry_witness:
  "(let st' = scrape
      \<lparr>station = ''KPHL'', address = ''api.weather.gov'', verbose = False, timeout = 10,
        backofftime = 30, failfast = False\<rparr>
      (\<lparr>retrieved = Inl ''timeout'', clock = 7000000000, logclock = 7000000000\<rparr>)
      \<lparr>metrics = \<lparr>humidity = 55, temperature = 18, dewpoint = 9, winddirection = [''N'' \<mapsto> 10],
          windspeed = 7, barometricpressure = 101000, sealevelpressure = 101100,
          visibility = 9000, timeSinceUpdate = 60\<rparr>,
        logged = [], slept = [], missingProperties = [], exited = None\<rparr>
    in metrics st' = \<lparr>humidity = 55, temperature = 18, dewpoint = 9, winddirection = [''N'' \<mapsto> 10],
          windspeed = 7, barometricpressure = 101000, sealevelpressure = 101100,
          visibility = 9000, timeSinceUpdate = 60\<rparr>
       \<and> logged st' = [Problem_retrieving ''api.weather.gov'' ''KPHL'' ''timeout'',
                        Waiting 30 37000000000]
       \<and> slept st' = [30000000000] \<and> exited st' = None
       \<and> metrics (scrape
           \<lparr>station = ''KPHL'', address = ''api.weather.gov'', verbose = False, timeout = 10,
        backofftime = 30, failfast = False\<rparr>
           \<lparr>retrieved = Inr (\<lparr>Properties = \<lparr>Timestamp = 1000000000, RelativeHumidity = None, Temperature = Some \<lparr>Value = Some 21.5\<rparr>,
          Dewpoint = Some \<lparr>Value = None\<rparr>, WindDirection = Some \<lparr>Value = Some 90\<rparr>, WindSpeed = None,
          BarometricPressure = Some \<lparr>Value = Some 101325\<rparr>,
          SeaLevelPressure = Some \<lparr>Value = None\<rparr>,
          Visibility = Some \<lparr>Value = Some 16000\<rparr>\<rparr>\<rparr>, ''{}''),
        clock = 6000000000, logclock = 6000000000\<rparr>
           st')
         = metrics (scrape
           \<lparr>station = ''KPHL'', address = ''api.weather.gov'', verbose = False, timeout = 10,
        backofftime = 30, failfast = False\<rparr>
           \<lparr>retrieved = Inr (\<lparr>Properties = \<lparr>Timestamp = 1000000000, RelativeHumidity = None, Temperature = Some \<lparr>Value = Some 21.5\<rparr>,
          Dewpoint = Some \<lparr>Value = None\<rparr>, WindDirection = Some \<lparr>Value = Some 90\<rparr>, WindSpeed = None,
          BarometricPressure = Some \<lparr>Value = Some 101325\<rparr>,
          SeaLevelPressure = Some \<lparr>Value = None\<rparr>,
          Visibility = Some \<lparr>Value = Some 16000\<rparr>\<rparr>\<rparr>, ''{}''),
        clock = 6000000000, logclock = 6000000000\<rparr>
           \<lparr>metrics = \<lparr>humidity = 55, temperature = 18, dewpoint = 9, winddirection = [''N'' \<mapsto> 10],
          windspeed = 7, barometricpressure = 101000, sealevelpressure = 101100,
          visibility = 9000, timeSinceUpdate = 60\<rparr>,
        logged = [], slept = [], missingProperties = [], exited = None\<rparr>))"
proof -
  have failed: "retrieved (\<lparr>retrieved = Inl ''timeout'', clock = 7000000000, logclock = 7000000000\<rparr>)
      = Inl ''timeout''"
    by simp
  have retry: "\<not> failfast
      \<lparr>station = ''KPHL'', address = ''api.weather.gov'', verbose = False, timeout = 10,
        backofftime = 30, failfast = False\<rparr>"
    by simp
  show ?thesis
    using fetch_error_retry [OF failed retry, where
      st = "\<lparr>metrics = \<lparr>humidity = 55, temperature = 18, dewpoint = 9, winddirection = [''N'' \<mapsto> 10],
          windspeed = 7, barometricpressure = 101000, sealevelpressure = 101100,
          visibility = 9000, timeSinceUpdate = 60\<rparr>,
        logged = [], slept = [], missingProperties = [], exited = None\<rparr>"
      and env' = "\<lparr>retrieved = Inr (\<lparr>Properties = \<lparr>Timestamp = 1000000000, RelativeHumidity = None, Temperature = Some \<lparr>Value = Some 21.5\<rparr>,
          Dewpoint = Some \<lparr>Value = None\<rparr>, WindDirection = Some \<lparr>Value = Some 90\<rparr>, WindSpeed = None,
          BarometricPressure = Some \<lparr>Value = Some 101325\<rparr>,
          SeaLevelPressure = Some \<lparr>Value = None\<rparr>,
          Visibility = Some \<lparr>Value = Some 16000\<rparr>\<rparr>\<rparr>, ''{}''),
        clock = 6000000000, logclock = 6000000000\<rparr>"
      and response = "\<lparr>Properties = \<lparr>Timestamp = 1000000000, RelativeHumidity = None, Temperature = Some \<lparr>Value = Some 21.5\<rparr>,
          Dewpoint = Some \<lparr>Value = None\<rparr>, WindDirection = Some \<lparr>Value = Some 90\<rparr>, WindSpeed = None,
          BarometricPressure = Some \<lparr>Value = Some 101325\<rparr>,
          SeaLevelPressure = Some \<lparr>Value = None\<rparr>,
          Visibility = Some \<lparr>Value = Some 16000\<rparr>\<rparr>\<rparr>"
      and rawJSON = "''{}''"]
    by (simp add: Let_def)
qed

text \<open>
  The iteration after a failed fetch has written two lines to the log, not one. And
  with \<^verbatim>\<open>backofftime\<close> at 9223372037 the duration of its sleep is not
  9223372037 seconds: the product has wrapped to a negative duration.
\<close>

theorem fetch_error_two_lines_wrapped_sleep:
  "logged (scrape
      \<lparr>station = ''KPHL'', address = ''api.weather.gov'', verbose = False, timeout = 10,
        backofftime = 100, failfast = False\<rparr>
      (\<lparr>retrieved = Inl ''timeout'', clock = 7000000000, logclock = 7000000000\<rparr>)
      \<lparr>metrics = \<lparr>humidity = 55, temperature = 18, dewpoint = 9, winddirection = [''N'' \<mapsto> 10],
          windspeed = 7, barometricpressure = 101000, sealevelpressure = 101100,
          visibility = 9000, timeSinceUpdate = 60\<rparr>,
        logged = [], slept = [], missingProperties = [], exited = None\<rparr>)
     = [Problem_retrieving ''api.weather.gov'' ''KPHL'' ''timeout'', Waiting 100 107000000000]
   \<and> length (logged (scrape
      \<lparr>station = ''KPHL'', address = ''api.weather.gov'', verbose = False, timeout = 10,
        backofftime = 100, failfast = False\<rparr>
      (\<lparr>retrieved = Inl ''timeout'', clock = 7000000000, logclock = 7000000000\<rparr>)
      \<lparr>metrics = \<lparr>humidity = 55, temperature = 18, dewpoint = 9, winddirection = [''N'' \<mapsto> 10],
          windspeed = 7, barometricpressure = 101000, sealevelpressure = 101100,
          visibility = 9000, timeSinceUpdate = 60\<rparr>,
        logged = [], slept = [], missingProperties = [], exited = None\<rparr>))
     \<noteq> 1
   \<and> slept (scrape
      \<lparr>station = ''KPHL'', address = ''api.weather.gov'', verbose = False, timeout = 10,
        backofftime = 9223372037, failfast = False\<rparr>
      (\<lparr>retrieved = Inl ''timeout'', clock = 7000000000, logclock = 7000000000\<rparr>)
      \<lparr>metrics = \<lparr>humidity = 55, temperature = 18, dewpoint = 9, winddirection = [''N'' \<mapsto> 10],
          windspeed = 7, barometricpressure = 101000, sealevelpressure = 101100,
          visibility = 9000, timeSinceUpdate = 60\<rparr>,
        logged = [], slept = [], missingProperties = [], exited = None\<rparr>)
     = [- 9223372036709551616]
   \<and> slept (scrape
      \<lparr>station = ''KPHL'', address = ''api.weather.gov'', verbose = False, timeout = 10,
        backofftime = 9223372037, failfast = False\<rparr>
      (\<lparr>retrieved = Inl ''timeout'', clock = 7000000000, logclock = 7000000000\<rparr>)
      \<lparr>metrics = \<lparr>humidity = 55, temperature = 18, dewpoint = 9, winddirection = [''N'' \<mapsto> 10],
          windspeed = 7, barometricpressure = 101000, sealevelpressure = 101100,
          visibility = 9000, timeSinceUpdate = 60\<rparr>,
        logged = [], slept = [], missingProperties = [], exited = None\<rparr>)
     \<noteq> [9223372037 * 1000000000]"
proof -
  have failed: "retrieved (\<lparr>retrieved = Inl ''timeout'', clock = 7000000000, logclock = 7000000000\<rparr>)
      = Inl ''timeout''"
    by simp
  have retry: "\<not> failfast
      \<lparr>station = ''KPHL'', address = ''api.weather.gov'', verbose = False, timeout = 10,
        backofftime = 100, failfast = False\<rparr>"
    by simp
  have retry_big: "\<not> failfast
      \<lparr>station = ''KPHL'', address = ''api.weather.gov'', verbose = False, timeout = 10,
        backofftime = 9223372037, failfast = False\<rparr>"
    by simp
  show ?thesis
    by (simp add: scrape_retry [OF failed retry] scrape_retry [OF failed retry_big]
          backoffseconds_wraps)
qed

text \<open>
  C4. When the fetch fails and \<^verbatim>\<open>failfast\<close> is set, the iteration reports the
  error with \<^verbatim>\<open>log.Fatalf\<close> and the process exits with status 1: the loop runs no
  further iteration. Nothing of the Publishing phase has run: the gauges and
  \<^verbatim>\<open>missingProperties\<close> are as before, and the loop has not slept.
\<close>

theorem fetch_error_failfast:
  assumes "retrieved env = Inl err" and "failfast cfg"
  shows "exited (scrape cfg env st) = Some 1
    \<and> logged (scrape cfg env st) = logged st @ [Fatal_error err]
    \<and> metrics (scrape cfg env st) = metrics st
    \<and> missingProperties (scrape cfg env st) = missingProperties st
    \<and> slept (scrape cfg env st) = slept st
    \<and> scrape_loop cfg (env # envs) st = scrape cfg env st"
  by (simp add: scrape_fatal [OF assms])

theorem fetch_error_failfast_witness:
  "(let st' = scrape_loop
      \<lparr>station = ''KPHL'', address = ''api.weather.gov'', verbose = False, timeout = 10,
        backofftime = 100, failfast = True\<rparr>
      [\<lparr>retrieved = Inl ''timeout'', clock = 7000000000, logclock = 7000000000\<rparr>,
       \<lparr>retrieved = Inr (\<lparr>Properties = \<lparr>Timestamp = 1000000000, RelativeHumidity = None, Temperature = Some \<lparr>Value = Some 21.5\<rparr>, Dewpoint = Some \<lparr>Value = None\<rparr>,
          WindDirection = Some \<lparr>Value = Some 90\<rparr>, WindSpeed = None, BarometricPressure = Some \<lparr>Value = Some 101325\<rparr>,
          SeaLevelPressure = Some \<lparr>Value = None\<rparr>, Visibility = Some \<lparr>Value = Some 16000\<rparr>\<rparr>\<rparr>, ''{}''),
        clock = 6000000000, logclock = 6000000000\<rparr>]
      \<lparr>metrics = \<lparr>humidity = 55, temperature = 18, dewpoint = 9, winddirection = [''N'' \<mapsto> 10],
          windspeed = 7, barometricpressure = 101000, sealevelpressure = 101100,
          visibility = 9000, timeSinceUpdate = 60\<rparr>,
        logged = [], slept = [], missingProperties = [], exited = None\<rparr>
    in exited st' = Some 1 \<and> logged st' = [Fatal_error ''timeout'']
       \<and> metrics st' = \<lparr>humidity = 55, temperature = 18, dewpoint = 9, winddirection = [''N'' \<mapsto> 10],
          windspeed = 7, barometricpressure = 101000, sealevelpressure = 101100,
          visibility = 9000, timeSinceUpdate = 60\<rparr>
       \<and> slept st' = [])"
proof -
  have failed: "retrieved (\<lparr>retrieved = Inl ''timeout'', clock = 7000000000, logclock = 7000000000\<rparr>) = Inl ''timeout''"
    by simp
  have ff: "failfast
      \<lparr>station = ''KPHL'', address = ''api.weather.gov'', verbose = False, timeout = 10,
        backofftime = 100, failfast = True\<rparr>"
    by simp
  show ?thesis
    using fetch_error_failfast [OF failed ff, where
      st = "\<lparr>metrics = \<lparr>humidity = 55, temperature = 18, dewpoint = 9, winddirection = [''N'' \<mapsto> 10],
          windspeed = 7, barometricpressure = 101000, sealevelpressure = 101100,
          visibility = 9000, timeSinceUpdate = 60\<rparr>,
        logged = [], slept = [], missingProperties = [], exited = None\<rparr>"
      and envs = "[\<lparr>retrieved = Inr (\<lparr>Properties = \<lparr>Timestamp = 1000000000, RelativeHumidity = None, Temperature = Some \<lparr>Value = Some 21.5\<rparr>, Dewpoint = Some \<lparr>Value = None\<rparr>,
          WindDirection = Some \<lparr>Value = Some 90\<rparr>, WindSpeed = None, BarometricPressure = Some \<lparr>Value = Some 101325\<rparr>,
          SeaLevelPressure = Some \<lparr>Value = None\<rparr>, Visibility = Some \<lparr>Value = Some 16000\<rparr>\<rparr>\<rparr>, ''{}''),
        clock = 6000000000, logclock = 6000000000\<rparr>]"]
    by (simp add: Let_def)
qed

text \<open>
  C8, as the loop has it. Every iteration that does not end the process sleeps once, for
  the duration \<^verbatim>\<open>time.Duration(backofftime) * time.Second\<close>, after a failed
  fetch as after a successful one. So whatever the results of the fetches, the durations
  the loop has slept are copies of that one duration; and when \<^verbatim>\<open>failfast\<close> is
  not set the loop goes through every fetch, however many of them fail, and sleeps that
  duration after each. The duration is a product in 64 bits: it is the configured
  \<^verbatim>\<open>backofftime\<close> seconds when that number is at most 9223372036 in absolute
  value, and the wrapped product beyond.
\<close>

theorem constant_sleep_interval:
  "slept (scrape cfg env st) =
     slept st @ (if isl (retrieved env) \<and> failfast cfg then [] else [backoffseconds cfg])
   \<and> (\<exists>k\<le>length envs.
         slept (scrape_loop cfg envs st) = slept st @ replicate k (backoffseconds cfg))
   \<and> (\<not> failfast cfg \<and> exited st = None \<longrightarrow>
         slept (scrape_loop cfg envs st) =
           slept st @ replicate (length envs) (backoffseconds cfg)
         \<and> exited (scrape_loop cfg envs st) = None)
   \<and> backoffseconds cfg = (backofftime cfg * 1000000000 + 2 ^ 63) mod 2 ^ 64 - 2 ^ 63
   \<and> (- 9223372036 \<le> backofftime cfg \<and> backofftime cfg \<le> 9223372036 \<longrightarrow>
         backoffseconds cfg = backofftime cfg * 1000000000)
   \<and> (- 9223372036 \<le> backofftime cfg \<and> backofftime cfg \<le> 9223372036
        \<and> \<not> failfast cfg \<and> exited st = None \<longrightarrow>
         slept (scrape_loop cfg envs st) =
           slept st @ replicate (length envs) (backofftime cfg * 1000000000))"
proof -
  have range: "- 9223372036 \<le> backofftime cfg \<and> backofftime cfg \<le> 9223372036 \<longrightarrow>
         backoffseconds cfg = backofftime cfg * 1000000000"
    by (simp add: backoffseconds_in_range)
  have forever: "\<not> failfast cfg \<and> exited st = None \<longrightarrow>
         slept (scrape_loop cfg envs st) =
           slept st @ replicate (length envs) (backoffseconds cfg)
         \<and> exited (scrape_loop cfg envs st) = None"
    using scrape_loop_retries_forever [of cfg st envs] by blast
  have "- 9223372036 \<le> backofftime cfg \<and> backofftime cfg \<le> 9223372036
        \<and> \<not> failfast cfg \<and> exited st = None \<longrightarrow>
         slept (scrape_loop cfg envs st) =
           slept st @ replicate (length envs) (backofftime cfg * 1000000000)"
    using range forever by auto
  then show ?thesis
    using slept_scrape [of cfg env st] slept_scrape_loop [of envs cfg st] forever range
      backoffseconds_wraps [of cfg]
    by blast
qed

theorem constant_sleep_interval_witness:
  "(let st' = scrape_loop
      \<lparr>station = ''KPHL'', address = ''api.weather.gov'', verbose = False, timeout = 10,
        backofftime = 30, failfast = False\<rparr>
      [\<lparr>retrieved = Inl ''timeout'', clock = 7000000000, logclock = 7000000000\<rparr>,
       \<lparr>retrieved = Inl ''timeout'', clock = 7000000000, logclock = 7000000000\<rparr>,
       \<lparr>retrieved = Inr (\<lparr>Properties = \<lparr>Timestamp = 1000000000, RelativeHumidity = None, Temperature = Some \<lparr>Value = Some 21.5\<rparr>,
          Dewpoint = Some \<lparr>Value = None\<rparr>, WindDirection = Some \<lparr>Value = Some 90\<rparr>, WindSpeed = None,
          BarometricPressure = Some \<lparr>Value = Some 101325\<rparr>,
          SeaLevelPressure = Some \<lparr>Value = None\<rparr>,
          Visibility = Some \<lparr>Value = Some 16000\<rparr>\<rparr>\<rparr>, ''{}''),
        clock = 6000000000, logclock = 6000000000\<rparr>,
       \<lparr>retrieved = Inl ''timeout'', clock = 7000000000, logclock = 7000000000\<rparr>]
      \<lparr>metrics = \<lparr>humidity = 55, temperature = 18, dewpoint = 9, winddirection = [''N'' \<mapsto> 10],
          windspeed = 7, barometricpressure = 101000, sealevelpressure = 101100,
          visibility = 9000, timeSinceUpdate = 60\<rparr>,
        logged = [], slept = [], missingProperties = [], exited = None\<rparr>
    in slept st' = [30000000000, 30000000000, 30000000000, 30000000000]
       \<and> exited st' = None)"
  using constant_sleep_interval [where
      cfg = "\<lparr>station = ''KPHL'', address = ''api.weather.gov'', verbose = False, timeout = 10,
        backofftime = 30, failfast = False\<rparr>"
      and st = "\<lparr>metrics = \<lparr>humidity = 55, temperature = 18, dewpoint = 9, winddirection = [''N'' \<mapsto> 10],
          windspeed = 7, barometricpressure = 101000, sealevelpressure = 101100,
          visibility = 9000, timeSinceUpdate = 60\<rparr>,
        logged = [], slept = [], missingProperties = [], exited = None\<rparr>"
      and envs = "[\<lparr>retrieved = Inl ''timeout'', clock = 7000000000, logclock = 7000000000\<rparr>,
       \<lparr>retrieved = Inl ''timeout'', clock = 7000000000, logclock = 7000000000\<rparr>,
       \<lparr>retrieved = Inr (\<lparr>Properties = \<lparr>Timestamp = 1000000000, RelativeHumidity = None, Temperature = Some \<lparr>Value = Some 21.5\<rparr>,
          Dewpoint = Some \<lparr>Value = None\<rparr>, WindDirection = Some \<lparr>Value = Some 90\<rparr>, WindSpeed = None,
          BarometricPressure = Some \<lparr>Value = Some 101325\<rparr>,
          SeaLevelPressure = Some \<lparr>Value = None\<rparr>,
          Visibility = Some \<lparr>Value = Some 16000\<rparr>\<rparr>\<rparr>, ''{}''),
        clock = 6000000000, logclock = 6000000000\<rparr>,
       \<lparr>retrieved = Inl ''timeout'', clock = 7000000000, logclock = 7000000000\<rparr>]"]
  by (simp add: Let_def)

text \<open>
  With \<^verbatim>\<open>backofftime\<close> at 9223372037 the loop does not sleep 9223372037 seconds
  after a fetch, failed or successful: the product has wrapped to a negative duration.
\<close>

theorem sleep_interval_wraps:
  "slept (scrape_loop
      \<lparr>station = ''KPHL'', address = ''api.weather.gov'', verbose = False, timeout = 10,
        backofftime = 9223372037, failfast = False\<rparr>
      [\<lparr>retrieved = Inl ''timeout'', clock = 7000000000, logclock = 7000000000\<rparr>,
       \<lparr>retrieved = Inr (\<lparr>Properties = \<lparr>Timestamp = 1000000000, RelativeHumidity = None, Temperature = Some \<lparr>Value = Some 21.5\<rparr>,
          Dewpoint = Some \<lparr>Value = None\<rparr>, WindDirection = Some \<lparr>Value = Some 90\<rparr>, WindSpeed = None,
          BarometricPressure = Some \<lparr>Value = Some 101325\<rparr>,
          SeaLevelPressure = Some \<lparr>Value = None\<rparr>,
          Visibility = Some \<lparr>Value = Some 16000\<rparr>\<rparr>\<rparr>, ''{}''),
        clock = 6000000000, logclock = 6000000000\<rparr>]
      \<lparr>metrics = \<lparr>humidity = 55, temperature = 18, dewpoint = 9, winddirection = [''N'' \<mapsto> 10],
          windspeed = 7, barometricpressure = 101000, sealevelpressure = 101100,
          visibility = 9000, timeSinceUpdate = 60\<rparr>,
        logged = [], slept = [], missingProperties = [], exited = None\<rparr>)
     = [- 9223372036709551616, - 9223372036709551616]
   \<and> slept (scrape_loop
      \<lparr>station = ''KPHL'', address = ''api.weather.gov'', verbose = False, timeout = 10,
        backofftime = 9223372037, failfast = False\<rparr>
      [\<lparr>retrieved = Inl ''timeout'', clock = 7000000000, logclock = 7000000000\<rparr>,
       \<lparr>retrieved = Inr (\<lparr>Properties = \<lparr>Timestamp = 1000000000, RelativeHumidity = None, Temperature = Some \<lparr>Value = Some 21.5\<rparr>,
          Dewpoint = Some \<lparr>Value = None\<rparr>, WindDirection = Some \<lparr>Value = Some 90\<rparr>, WindSpeed = None,
          BarometricPressure = Some \<lparr>Value = Some 101325\<rparr>,
          SeaLevelPressure = Some \<lparr>Value = None\<rparr>,
          Visibility = Some \<lparr>Value = Some 16000\<rparr>\<rparr>\<rparr>, ''{}''),
        clock = 6000000000, logclock = 6000000000\<rparr>]
      \<lparr>metrics = \<lparr>humidity = 55, temperature = 18, dewpoint = 9, winddirection = [''N'' \<mapsto> 10],
          windspeed = 7, barometricpressure = 101000, sealevelpressure = 101100,
          visibility = 9000, timeSinceUpdate = 60\<rparr>,
        logged = [], slept = [], missingProperties = [], exited = None\<rparr>)
     \<noteq> [9223372037 * 1000000000, 9223372037 * 1000000000]"
proof -
  have retry_big: "\<not> failfast
      \<lparr>station = ''KPHL'', address = ''api.weather.gov'', verbose = False, timeout = 10,
        backofftime = 9223372037, failfast = False\<rparr>"
    by simp
  have running: "exited
      \<lparr>metrics = \<lparr>humidity = 55, temperature = 18, dewpoint = 9, winddirection = [''N'' \<mapsto> 10],
          windspeed = 7, barometricpressure = 101000, sealevelpressure = 101100,
          visibility = 9000, timeSinceUpdate = 60\<rparr>,
        logged = [], slept = [], missingProperties = [], exited = None\<rparr> = None"
    by simp
  show ?thesis
    unfolding scrape_loop_retries_forever [OF retry_big running, THEN conjunct1]
    by (simp add: backoffseconds_wraps)
qed

text \<open>
  C9. Two runs of one iteration that differ only in the flag \<^verbatim>\<open>verbose\<close> (same
  result of the fetch, same clocks, same state before) end with the same gauges and the
  same \<^verbatim>\<open>missingProperties\<close>, have slept the same and have exited or not alike:
  the flag changes the log only.
\<close>

theorem verbose_changes_only_the_log:
  "metrics (scrape (cfg\<lparr>verbose := b\<rparr>) env st) = metrics (scrape (cfg\<lparr>verbose := b'\<rparr>) env st)
   \<and> missingProperties (scrape (cfg\<lparr>verbose := b\<rparr>) env st) =
       missingProperties (scrape (cfg\<lparr>verbose := b'\<rparr>) env st)
   \<and> slept (scrape (cfg\<lparr>verbose := b\<rparr>) env st) = slept (scrape (cfg\<lparr>verbose := b'\<rparr>) env st)
   \<and> exited (scrape (cfg\<lparr>verbose := b\<rparr>) env st) = exited (scrape (cfg\<lparr>verbose := b'\<rparr>) env st)"
proof (cases "retrieved env")
  case (Inl err)
  then show ?thesis
    by (cases "failfast cfg") (simp_all add: scrape_fatal scrape_retry backoffseconds_def)
next
  case (Inr ok)
  obtain response rawJSON where "ok = (response, rawJSON)"
    by (cases ok)
  with Inr have "retrieved env = Inr (response, rawJSON)"
    by simp
  then show ?thesis
    by (simp add: scrape_success backoffseconds_def)
qed

end
